theory Spec2Isabelle
  imports Main "HOL-Library.AList"
begin

section \<open>Text primitives of the Python source\<close>

text \<open>
  The reconciliation engine of \<^verbatim>\<open>main.py\<close> works on free text of an activity feed.
  Strings are modelled as \<^typ>\<open>string\<close> over ASCII: \<^verbatim>\<open>str.lower\<close> maps the letters
  \<^verbatim>\<open>A-Z\<close>, the regular-expression class \<^verbatim>\<open>\d\<close> is \<^verbatim>\<open>0-9\<close> and \<^verbatim>\<open>\s\<close> (as well as
  \<^verbatim>\<open>str.split()\<close> and \<^verbatim>\<open>str.strip()\<close>) is the ASCII white space of Python.
\<close>

definition lower_char :: "char \<Rightarrow> char" where
  "lower_char c =
     (case map_of (zip ''ABCDEFGHIJKLMNOPQRSTUVWXYZ'' ''abcdefghijklmnopqrstuvwxyz'') c of
        Some d \<Rightarrow> d
      | None \<Rightarrow> c)"

definition py_lower :: "string \<Rightarrow> string" where
  "py_lower s = map lower_char s"

definition is_digit :: "char \<Rightarrow> bool" where
  "is_digit c = (c \<in> set ''0123456789'')"

definition digit_val :: "char \<Rightarrow> nat" where
  "digit_val c =
     (case map_of (zip ''0123456789'' [0, 1, 2, 3, 4, 5, 6, 7, 8, 9]) c of
        Some d \<Rightarrow> d
      | None \<Rightarrow> 0)"

definition is_space :: "char \<Rightarrow> bool" where
  "is_space c =
     (c \<in> set [CHR '' '', CHR 0x09, CHR 0x0A, CHR 0x0B, CHR 0x0C, CHR 0x0D,
               CHR 0x1C, CHR 0x1D, CHR 0x1E, CHR 0x1F])"

text \<open>\<^verbatim>\<open>int(s)\<close> on a string of decimal digits.\<close>

definition py_int :: "string \<Rightarrow> int" where
  "py_int ds = int (foldl (\<lambda>a c. 10 * a + digit_val c) 0 ds)"

primrec starts_with :: "string \<Rightarrow> string \<Rightarrow> bool" where
  "starts_with [] s = True"
| "starts_with (p # ps) s = (case s of [] \<Rightarrow> False | c # cs \<Rightarrow> p = c \<and> starts_with ps cs)"

text \<open>\<^verbatim>\<open>sub in s\<close> on strings: \<open>sub\<close> occurs in \<open>s\<close> as a contiguous block.\<close>

primrec py_in :: "string \<Rightarrow> string \<Rightarrow> bool" where
  "py_in sub [] = (sub = [])"
| "py_in sub (c # cs) = (starts_with sub (c # cs) \<or> py_in sub cs)"

text \<open>\<^verbatim>\<open>s.strip()\<close> and \<^verbatim>\<open>s.split()\<close> without arguments.\<close>

definition py_strip :: "string \<Rightarrow> string" where
  "py_strip s = rev (dropWhile is_space (rev (dropWhile is_space s)))"

fun split_ws_aux :: "string \<Rightarrow> string \<Rightarrow> string list" where
  "split_ws_aux acc [] = (if acc = [] then [] else [rev acc])"
| "split_ws_aux acc (c # cs) =
     (if is_space c then (if acc = [] then split_ws_aux [] cs else rev acc # split_ws_aux [] cs)
      else split_ws_aux (c # acc) cs)"

definition py_split_ws :: "string \<Rightarrow> string list" where
  "py_split_ws s = split_ws_aux [] s"

text \<open>
  \<^verbatim>\<open>s.split(sep)\<close> for a non-empty separator: the pieces between the occurrences of
  \<open>sep\<close>, found from left to right without overlap. The source only calls it with the
  literals \<^verbatim>\<open>' from '\<close>, \<^verbatim>\<open>' with'\<close> and \<^verbatim>\<open>'['\<close>.
\<close>

fun split_aux :: "string \<Rightarrow> string \<Rightarrow> string \<Rightarrow> string list" where
  "split_aux sep acc [] = [rev acc]"
| "split_aux sep acc (c # cs) =
     (if starts_with sep (c # cs) then rev acc # split_aux sep [] (drop (length sep - 1) cs)
      else split_aux sep (c # acc) cs)"

definition py_split :: "string \<Rightarrow> string \<Rightarrow> string list" where
  "py_split sep s = split_aux sep [] s"

text \<open>\<^verbatim>\<open>re.findall(r'\d+', s)\<close>: the maximal runs of digits, from left to right.\<close>

fun digit_runs_aux :: "string \<Rightarrow> string \<Rightarrow> string list" where
  "digit_runs_aux acc [] = (if acc = [] then [] else [rev acc])"
| "digit_runs_aux acc (c # cs) =
     (if is_digit c then digit_runs_aux (c # acc) cs
      else if acc = [] then digit_runs_aux [] cs
      else rev acc # digit_runs_aux [] cs)"

definition digit_runs :: "string \<Rightarrow> string list" where
  "digit_runs s = digit_runs_aux [] s"

text \<open>
  \<^verbatim>\<open>re.search(r'(\d+)x?\s*xanax', s)\<close>, returning group 1. The search tries the start
  positions from left to right. At a start position \<^verbatim>\<open>\d+\<close> is greedy; giving back a
  digit never helps, since the next pattern character would then face a digit, so the
  group is the whole run of digits from the start position. After it come an optional
  \<^verbatim>\<open>x\<close> (tried first with the \<^verbatim>\<open>x\<close>, then without), any white space, and \<^verbatim>\<open>xanax\<close>.
\<close>

definition ws_then_xanax :: "string \<Rightarrow> bool" where
  "ws_then_xanax r = starts_with ''xanax'' (dropWhile is_space r)"

definition xanax_tail :: "string \<Rightarrow> bool" where
  "xanax_tail r =
     ((case r of [] \<Rightarrow> False | c # cs \<Rightarrow> c = CHR ''x'' \<and> ws_then_xanax cs) \<or> ws_then_xanax r)"

fun xanax_pattern :: "string \<Rightarrow> string option" where
  "xanax_pattern [] = None"
| "xanax_pattern (c # cs) =
     (if is_digit c \<and> xanax_tail (dropWhile is_digit cs)
      then Some (c # takeWhile is_digit cs)
      else xanax_pattern cs)"

section \<open>Amount extraction\<close>

text \<open>
  New-Order Discovery (\<^verbatim>\<open>detect_new_orders_from_torn\<close>, "Extract payment amount"): the
  pattern on the lowered text, then the phrase \<^verbatim>\<open>some xanax\<close> standing for 1, then the
  first number anywhere in the text; 0 when nothing is found.
\<close>

definition payment_amount :: "string \<Rightarrow> int" where
  "payment_amount log_text =
     (let log_text_lower = py_lower log_text in
      case xanax_pattern log_text_lower of
        Some g \<Rightarrow> py_int g
      | None \<Rightarrow>
          if py_in ''some xanax'' log_text_lower then 1
          else (case digit_runs log_text of [] \<Rightarrow> 0 | n # _ \<Rightarrow> py_int n))"

text \<open>
  Matching Engine (\<^verbatim>\<open>perform_order_check\<close>, "Verify payment amount"): the same three
  tiers, each compared with the payment the order expects; the last tier accepts any
  number of the text.
\<close>

definition payment_amount_found :: "int \<Rightarrow> string \<Rightarrow> bool" where
  "payment_amount_found expected_payment log_text =
     (let log_text_lower = py_lower log_text in
      case xanax_pattern log_text_lower of
        Some g \<Rightarrow> py_int g = expected_payment
      | None \<Rightarrow>
          if py_in ''some xanax'' log_text_lower \<and> expected_payment = 1 then True
          else list_ex (\<lambda>num. py_int num = expected_payment) (digit_runs log_text))"


section \<open>Data model\<close>

text \<open>
  Instants are whole seconds since the epoch, the resolution of the strings that
  \<^verbatim>\<open>strftime('%Y-%m-%d %H:%M:%S')\<close> stores in an order; the clock reading of
  \<^verbatim>\<open>datetime.now()\<close> is a parameter \<open>now\<close> of every operation, and the year range of
  \<^verbatim>\<open>datetime\<close> is not modelled. The chat layer (embeds, channels, direct messages) and
  the persistent \<^verbatim>\<open>db\<close> sink are outside the store and are left out.
\<close>

datatype py_error = TypeError | IndexError | ValueError

datatype coverage = XAN | EXTC

datatype order_status = StatusPending | StatusActive

text \<open>
  An order identifier is the string \<^verbatim>\<open>f"{user.id}_{datetime.now().timestamp()}"\<close>, with
  the suffix \<^verbatim>\<open>_auto\<close> when New-Order Discovery made it: its three components.
\<close>

datatype order_id = OrderId nat int bool

text \<open>
  An order is a Python dictionary; a key that some creation path leaves out is an
  optional field. The keys \<^verbatim>\<open>order_id\<close> and \<^verbatim>\<open>user_message\<close> (a handle of the chat
  layer) are not read by the engine and are left out.
\<close>

record order =
  user_id :: nat
  username :: string
  display_name :: "string option"
  coverage_type :: coverage
  hours :: "int option"
  jumps :: "int option"
  xanax_payment :: "int option"
  xanax_reward :: int
  edvds_reward :: "int option"
  ecstasy_reward :: "int option"
  timestamp :: "int option"
  payment_received_at :: "int option"
  status :: "order_status option"
  auto_detected :: bool
  torn_sender_name :: "string option"
  activated_at :: "int option"
  expires_at :: "int option"
  start_time :: "int option"

record xan_price =
  xan_cost :: int
  xan_reward :: int

record extc_price =
  extc_cost :: int
  extc_edvds :: int
  extc_xanax :: int
  extc_ecstasy :: int

text \<open>The module-level globals of \<^verbatim>\<open>main.py\<close>; a dictionary keeps its insertion order.\<close>

record state =
  pending_order :: "(order_id \<times> order) list"
  active_orders :: "(order_id \<times> order) list"
  pricing_xan :: "(int \<times> xan_price) list"
  pricing_extc :: "(int \<times> extc_price) list"
  processed_events :: "string set"
  stored_api_key :: "string option"
  auto_check_enabled :: bool
  auto_check_interval :: int
  last_check_time :: int

text \<open>A member of the guild: \<^verbatim>\<open>member.id\<close>, \<^verbatim>\<open>str(member)\<close>, \<^verbatim>\<open>member.display_name\<close>.\<close>

record member =
  m_id :: nat
  m_name :: string
  m_display_name :: string

subsection \<open>The activity feed\<close>

text \<open>
  A field of a feed entry is any JSON value. A value that is not a string is kept by
  what the code can observe of it: its truth value and its rendering by \<^verbatim>\<open>str\<close>.
  An absent \<^verbatim>\<open>log\<close> or \<^verbatim>\<open>event\<close> key reads as the empty string, the default of
  \<^verbatim>\<open>log_entry.get\<close>.
\<close>

datatype pyval = PStr string | POther bool string

fun truthy :: "pyval \<Rightarrow> bool" where
  "truthy (PStr s) = (s \<noteq> [])"
| "truthy (POther b r) = b"

fun py_str :: "pyval \<Rightarrow> string" where
  "py_str (PStr s) = s"
| "py_str (POther b r) = r"

text \<open>
  The \<^verbatim>\<open>timestamp\<close> field: absent (the default 0 applies), a number, or a JSON value
  that \<^verbatim>\<open>datetime.fromtimestamp\<close> rejects with a \<^verbatim>\<open>TypeError\<close>.
\<close>

datatype raw_ts = TsAbsent | TsNum int | TsOther

fun fromtimestamp :: "raw_ts \<Rightarrow> py_error + int" where
  "fromtimestamp TsAbsent = Inr 0"
| "fromtimestamp (TsNum t) = Inr t"
| "fromtimestamp TsOther = Inl TypeError"

text \<open>
  A feed entry: not a dictionary, or a dictionary with its \<^verbatim>\<open>log\<close>, \<^verbatim>\<open>event\<close> and
  \<^verbatim>\<open>timestamp\<close> fields and the values of its other string fields.
\<close>

datatype log_entry = NonDict | Dict pyval pyval raw_ts "string list"

text \<open>
  What \<^verbatim>\<open>check_torn_events\<close> returns: \<^verbatim>\<open>None\<close> when the fetch failed, else the
  \<^verbatim>\<open>events\<close> member of the reply: a dictionary, a list, or another JSON value (kept by
  its truth value).
\<close>

datatype feed = FeedNone | FeedDict "(string \<times> log_entry) list" | FeedList "log_entry list"
  | FeedOther bool

fun feed_truthy :: "feed \<Rightarrow> bool" where
  "feed_truthy FeedNone = False"
| "feed_truthy (FeedDict d) = (d \<noteq> [])"
| "feed_truthy (FeedList l) = (l \<noteq> [])"
| "feed_truthy (FeedOther b) = b"

text \<open>\<^verbatim>\<open>str(i)\<close> of a list index.\<close>

fun str_nat :: "nat \<Rightarrow> string" where
  "str_nat n =
     (if n < 10 then [''0123456789'' ! n]
      else str_nat (n div 10) @ [''0123456789'' ! (n mod 10)])"

text \<open>
  \<^verbatim>\<open>log_items\<close>: the items of a dictionary, the enumeration of a list, nothing for
  another value; the identifier is already passed through \<^verbatim>\<open>str\<close>.
\<close>

fun log_items :: "feed \<Rightarrow> (string \<times> log_entry) list" where
  "log_items (FeedDict d) = d"
| "log_items (FeedList l) = map (\<lambda>(i, entry). (str_nat i, entry)) (enumerate 0 l)"
| "log_items _ = []"

text \<open>
  The text of an entry: the \<^verbatim>\<open>event\<close> field when the \<^verbatim>\<open>log\<close> field is empty, and
  anything that is not a string is stringified.
\<close>

definition entry_text :: "pyval \<Rightarrow> pyval \<Rightarrow> string" where
  "entry_text log_text event_text =
     py_str (if truthy event_text \<and> \<not> truthy log_text then event_text else log_text)"

definition has_transfer :: "string \<Rightarrow> bool" where
  "has_transfer log_text_lower =
     ((py_in ''sent'' log_text_lower \<and> py_in ''to you'' log_text_lower)
      \<or> py_in ''you were sent'' log_text_lower
      \<or> py_in ''received'' log_text_lower)"

definition message_code :: "coverage \<Rightarrow> string" where
  "message_code c = (case c of XAN \<Rightarrow> ''HJSx'' | EXTC \<Rightarrow> ''HJSe'')"

text \<open>Coverage length in seconds: the \<^verbatim>\<open>hours\<close> of a XAN order (24 by default), 2 hours for EXTC.\<close>

definition coverage_seconds :: "order \<Rightarrow> int" where
  "coverage_seconds order_data =
     (case coverage_type order_data of
        XAN \<Rightarrow> (case hours order_data of Some h \<Rightarrow> h | None \<Rightarrow> 24) * 3600
      | EXTC \<Rightarrow> 2 * 3600)"

section \<open>Matching Engine: \<^verbatim>\<open>perform_order_check\<close>\<close>

definition display_name_clean :: "string \<Rightarrow> string" where
  "display_name_clean dn =
     (if py_in ''['' dn then (case py_split ''['' dn of [] \<Rightarrow> [] | p # _ \<Rightarrow> py_strip p) else dn)"

definition name_match_found :: "string \<Rightarrow> string \<Rightarrow> string \<Rightarrow> bool" where
  "name_match_found dn_clean uname log_text_lower =
     (let display_name_found = py_in (py_lower dn_clean) log_text_lower;
          username_found = py_in (py_lower uname) log_text_lower;
          display_name_words = py_split_ws (py_lower dn_clean);
          username_words = py_split_ws (py_lower uname);
          partial_display_match =
            list_ex (\<lambda>word. length word > 2 \<and> py_in word log_text_lower) display_name_words;
          partial_username_match =
            list_ex (\<lambda>word. length word > 2 \<and> py_in word log_text_lower) username_words
      in display_name_found \<or> username_found \<or> partial_display_match \<or> partial_username_match)"

text \<open>The pre-filter "Only check logs that might be relevant", over the text and every string field.\<close>

definition might_be_relevant :: "string \<Rightarrow> string \<Rightarrow> string list \<Rightarrow> bool" where
  "might_be_relevant code_lower log_text_lower values =
     (py_in ''xanax'' log_text_lower \<or> py_in ''hjsx'' log_text_lower
      \<or> py_in ''hjse'' log_text_lower \<or> py_in code_lower log_text_lower
      \<or> list_ex (\<lambda>v. let value_lower = py_lower v in
                     py_in ''xanax'' value_lower \<or> py_in ''hjsx'' value_lower
                     \<or> py_in ''hjse'' value_lower \<or> py_in code_lower value_lower) values)"

fun string_fields :: "pyval \<Rightarrow> pyval \<Rightarrow> string list \<Rightarrow> string list" where
  "string_fields lg ev others =
     (case lg of PStr s \<Rightarrow> [s] | _ \<Rightarrow> []) @ (case ev of PStr s \<Rightarrow> [s] | _ \<Rightarrow> []) @ others"

text \<open>What the outer loop reads from the order before it scans the feed.\<close>

definition expected_payment :: "order \<Rightarrow> int" where
  "expected_payment order_data = (case xanax_payment order_data of Some p \<Rightarrow> p | None \<Rightarrow> 0)"

definition order_display_name :: "order \<Rightarrow> string" where
  "order_display_name order_data =
     (case display_name order_data of Some d \<Rightarrow> d | None \<Rightarrow> username order_data)"

text \<open>\<^verbatim>\<open>has_xanax and has_message_code and has_transfer\<close>\<close>

definition has_payment_text :: "coverage \<Rightarrow> string \<Rightarrow> bool" where
  "has_payment_text cov log_text_lower =
     (py_in ''xanax'' log_text_lower \<and> py_in (py_lower (message_code cov)) log_text_lower
      \<and> has_transfer log_text_lower)"

text \<open>
  One event against one pending order (the body of the inner loop). \<open>Inr (Some t)\<close>: the
  event, of time \<open>t\<close>, confirms the payment; \<open>Inr None\<close>: the loop goes on;
  \<open>Inl e\<close>: the exception \<open>e\<close> leaves the function.
\<close>

definition check_event :: "int \<Rightarrow> order \<Rightarrow> log_entry \<Rightarrow> py_error + int option" where
  "check_event lookback_limit order_data log_entry =
     (case log_entry of
        NonDict \<Rightarrow> Inr None
      | Dict lg ev ts others \<Rightarrow>
          (let cov = coverage_type order_data;
               log_text = entry_text lg ev;
               log_text_lower = py_lower log_text
           in case fromtimestamp ts of
                Inl e \<Rightarrow> Inl e
              | Inr log_time \<Rightarrow>
                  if log_time < lookback_limit then Inr None
                  else if \<not> might_be_relevant (py_lower (message_code cov)) log_text_lower
                              (string_fields lg ev others)
                  then Inr None
                  else if has_payment_text cov log_text_lower
                  then (case timestamp order_data of
                          None \<Rightarrow> Inl TypeError
                        | Some order_time \<Rightarrow>
                            if \<bar>log_time - order_time\<bar> \<le> 3600
                               \<and> payment_amount_found (expected_payment order_data) log_text
                               \<and> name_match_found
                                   (display_name_clean (order_display_name order_data))
                                   (username order_data) log_text_lower
                            then Inr (Some log_time) else Inr None)
                  else Inr None))"

text \<open>The inner loop over the feed: the first qualifying event wins.\<close>

fun find_payment :: "int \<Rightarrow> order \<Rightarrow> (string \<times> log_entry) list \<Rightarrow> py_error + int option" where
  "find_payment lookback_limit order_data [] = Inr None"
| "find_payment lookback_limit order_data ((log_id, log_entry) # rest) =
     (case check_event lookback_limit order_data log_entry of
        Inl e \<Rightarrow> Inl e
      | Inr (Some log_time) \<Rightarrow> Inr (Some log_time)
      | Inr None \<Rightarrow> find_payment lookback_limit order_data rest)"

text \<open>The update of the order on a match ("Update order timestamp to when payment was actually received").\<close>

definition confirm_payment :: "order \<Rightarrow> int \<Rightarrow> order" where
  "confirm_payment order_data log_time =
     (let payment_made_first =
            (case timestamp order_data of Some order_time \<Rightarrow> log_time < order_time
             | None \<Rightarrow> False);
          od = order_data\<lparr>payment_received_at := Some log_time\<rparr>
      in if payment_made_first then od\<lparr>timestamp := Some log_time\<rparr> else od)"

text \<open>
  The outer loop over \<^verbatim>\<open>pending_order.items()\<close>. The orders are updated in place, so the
  first component is the pending dictionary as the loop leaves it, also when an exception
  ends the loop; the second is the exception, or the verified orders and the number of
  orders still pending.
\<close>

fun check_orders :: "int \<Rightarrow> (string \<times> log_entry) list \<Rightarrow> (order_id \<times> order) list \<Rightarrow>
    (order_id \<times> order) list \<times> (py_error + (order_id \<times> order) list \<times> nat)" where
  "check_orders lookback_limit items [] = ([], Inr ([], 0))"
| "check_orders lookback_limit items ((oid, order_data) # rest) =
     (case find_payment lookback_limit order_data items of
        Inl e \<Rightarrow> ((oid, order_data) # rest, Inl e)
      | Inr None \<Rightarrow>
          (case check_orders lookback_limit items rest of
             (rest', Inl e) \<Rightarrow> ((oid, order_data) # rest', Inl e)
           | (rest', Inr (verified, still)) \<Rightarrow>
               ((oid, order_data) # rest', Inr (verified, Suc still)))
      | Inr (Some log_time) \<Rightarrow>
          (let od = confirm_payment order_data log_time in
           case check_orders lookback_limit items rest of
             (rest', Inl e) \<Rightarrow> ((oid, od) # rest', Inl e)
           | (rest', Inr (verified, still)) \<Rightarrow>
               ((oid, od) # rest', Inr ((oid, od) # verified, still))))"

text \<open>"Activate verified orders": copy into the active dictionary, delete from the pending one.\<close>

definition activate :: "int \<Rightarrow> order \<Rightarrow> order" where
  "activate activation_time order_data =
     order_data\<lparr>activated_at := Some activation_time,
                expires_at := Some (activation_time + coverage_seconds order_data)\<rparr>"

fun activate_verified :: "int \<Rightarrow> (order_id \<times> order) list \<Rightarrow> state \<Rightarrow> state" where
  "activate_verified now [] st = st"
| "activate_verified now ((oid, order_data) # rest) st =
     activate_verified now rest
       (st\<lparr>active_orders := AList.update oid (activate now order_data) (active_orders st),
           pending_order := AList.delete oid (pending_order st)\<rparr>)"

text \<open>
  The whole pass. The result is the store after the call and either the exception that
  left the function or the pair (still pending, activated).
\<close>

definition perform_order_check :: "int \<Rightarrow> feed \<Rightarrow> state \<Rightarrow> state \<times> (py_error + nat \<times> nat)" where
  "perform_order_check now events st =
     (if pending_order st = [] then (st, Inr (0, 0))
      else if events = FeedNone then (st, Inr (0, 0))
      else
        (let lookback_limit = now - 24 * 3600 in
         case check_orders lookback_limit (log_items events) (pending_order st) of
           (pend, Inl e) \<Rightarrow> (st\<lparr>pending_order := pend\<rparr>, Inl e)
         | (pend, Inr (verified, still)) \<Rightarrow>
             (activate_verified now verified (st\<lparr>pending_order := pend\<rparr>),
              Inr (still, length verified))))"


section \<open>New-Order Discovery: \<^verbatim>\<open>detect_new_orders_from_torn\<close>\<close>

text \<open>
  \<^verbatim>\<open>re.search(r'from.*?>([^<]+)</a>', log_text)\<close>, returning group 1. At a start
  position that reads \<^verbatim>\<open>from\<close>, the lazy \<^verbatim>\<open>.*?\<close> is extended one character at a time
  (never over a newline) until a \<^verbatim>\<open>></a>\<close> follows from which the group matches:
  a non-empty run of characters other than \<^verbatim>\<open><\<close>, taken whole, and then \<^verbatim>\<open></a>\<close>.
\<close>

definition anchor_group :: "string \<Rightarrow> string option" where
  "anchor_group r =
     (let g = takeWhile (\<lambda>c. c \<noteq> CHR ''<'') r in
      if g \<noteq> [] \<and> starts_with ''</a>'' (dropWhile (\<lambda>c. c \<noteq> CHR ''<'') r)
      then Some g else None)"

fun lazy_to_anchor :: "string \<Rightarrow> string option" where
  "lazy_to_anchor [] = None"
| "lazy_to_anchor (c # cs) =
     (case (if c = CHR ''>'' then anchor_group cs else None) of
        Some g \<Rightarrow> Some g
      | None \<Rightarrow> if c = CHR 0x0A then None else lazy_to_anchor cs)"

fun name_pattern :: "string \<Rightarrow> string option" where
  "name_pattern [] = None"
| "name_pattern (c # cs) =
     (case (if starts_with ''from'' (c # cs) then lazy_to_anchor (drop 3 cs) else None) of
        Some g \<Rightarrow> Some g
      | None \<Rightarrow> name_pattern cs)"

text \<open>
  "Extract sender name from the event text". The fallback takes the first word of what
  follows \<^verbatim>\<open>' from '\<close>; \<^verbatim>\<open>name_part.split()[0]\<close> raises \<^verbatim>\<open>IndexError\<close> when nothing
  but white space is there.
\<close>

definition extract_sender_name :: "string \<Rightarrow> py_error + string option" where
  "extract_sender_name log_text =
     (if py_in ''from'' (py_lower log_text) then
        (case name_pattern log_text of
           Some g \<Rightarrow> Inr (Some (py_strip g))
         | None \<Rightarrow>
             (case py_split '' from '' log_text of
                p0 # p1 # ps \<Rightarrow>
                  (let name_part =
                         py_strip (case py_split '' with'' p1 of [] \<Rightarrow> [] | q # qs \<Rightarrow> q)
                   in case py_split_ws name_part of
                        [] \<Rightarrow> Inl IndexError
                      | w # ws \<Rightarrow> Inr (Some w))
              | _ \<Rightarrow> Inr None))
      else Inr None)"

text \<open>"Check if sender exists in Discord server": the first member whose display name matches.\<close>

definition find_member :: "member list \<Rightarrow> string \<Rightarrow> member option" where
  "find_member members sender_name =
     find (\<lambda>m. let member_display = py_lower (m_display_name m) in
                py_in (py_lower sender_name) member_display
                \<or> py_in member_display (py_lower sender_name)) members"

text \<open>\<^verbatim>\<open>any(order_data.get('user_id') == uid for order_data in d.values())\<close>\<close>

definition has_order :: "nat \<Rightarrow> (order_id \<times> order) list \<Rightarrow> bool" where
  "has_order uid d = list_ex (\<lambda>(oid, order_data). user_id order_data = uid) d"

text \<open>The dictionary literals of the source: every key that is not set is absent.\<close>

definition order_dict :: "nat \<Rightarrow> string \<Rightarrow> coverage \<Rightarrow> int \<Rightarrow> order" where
  "order_dict uid uname cov rew =
     \<lparr>user_id = uid, username = uname, display_name = None, coverage_type = cov,
      hours = None, jumps = None, xanax_payment = None, xanax_reward = rew,
      edvds_reward = None, ecstasy_reward = None, timestamp = None,
      payment_received_at = None, status = None, auto_detected = False,
      torn_sender_name = None, activated_at = None, expires_at = None, start_time = None\<rparr>"

text \<open>
  One feed entry (the body of the loop). \<open>Inr (st', k)\<close>: the loop goes on with the store
  \<open>st'\<close> and \<open>k\<close> more orders counted; \<open>Inl e\<close>: the exception \<open>e\<close> leaves the loop.
  For a XAN payment the source builds the order and sets its \<^verbatim>\<open>hours\<close>; the statements
  that store it, mark the event and count it stand in the \<^verbatim>\<open>else\<close> branch of
  \<^verbatim>\<open>if coverage_type == 'XAN'\<close>, so they run for EXTC only.
\<close>

definition detect_event ::
    "int \<Rightarrow> member list \<Rightarrow> state \<Rightarrow> string \<times> log_entry \<Rightarrow> py_error + state \<times> nat" where
  "detect_event now members st item =
     (case item of
        (event_id, NonDict) \<Rightarrow> Inr (st, 0)
      | (event_id, Dict lg ev ts others) \<Rightarrow>
          if event_id \<in> processed_events st then Inr (st, 0)
          else
            (let log_text = entry_text lg ev;
                 log_text_lower = py_lower log_text;
                 lookback_limit = now - 3600
             in case fromtimestamp ts of
                  Inl e \<Rightarrow> Inl e
                | Inr log_time \<Rightarrow>
                    if log_time < lookback_limit then Inr (st, 0)
                    else
                      (let has_xanax = py_in ''xanax'' log_text_lower;
                           has_hjsx = py_in ''hjsx'' log_text_lower;
                           has_hjse = py_in ''hjse'' log_text_lower;
                           is_xan_order = (has_xanax \<and> has_hjsx \<and> has_transfer log_text_lower);
                           is_extc_order = (has_xanax \<and> has_hjse \<and> has_transfer log_text_lower)
                       in if \<not> (is_xan_order \<or> is_extc_order) then Inr (st, 0)
                          else
                            (case extract_sender_name log_text of
                               Inl e \<Rightarrow> Inl e
                             | Inr None \<Rightarrow> Inr (st, 0)
                             | Inr (Some sender_name) \<Rightarrow>
                                 if sender_name = [] then Inr (st, 0)
                                 else
                                   (case find_member members sender_name of
                                      None \<Rightarrow> Inr (st, 0)
                                    | Some discord_member \<Rightarrow>
                                        if has_order (m_id discord_member) (pending_order st)
                                        then Inr (st, 0)
                                        else if has_order (m_id discord_member) (active_orders st)
                                        then Inr (st, 0)
                                        else
                                          (let amount = payment_amount log_text in
                                           if amount = 0 then Inr (st, 0)
                                           else if is_xan_order then
                                             (case find (\<lambda>(duration, price_info).
                                                           xan_cost price_info = amount)
                                                     (pricing_xan st) of
                                                None \<Rightarrow> Inr (st, 0)
                                              | Some (duration, price_info) \<Rightarrow> Inr (st, 0))
                                           else
                                             (case find (\<lambda>(jump_count, price_info).
                                                           extc_cost price_info = amount)
                                                     (pricing_extc st) of
                                                None \<Rightarrow> Inr (st, 0)
                                              | Some (jump_count, price_info) \<Rightarrow>
                                                  (let order_id =
                                                         OrderId (m_id discord_member) now True;
                                                       order_data =
                                                         (order_dict (m_id discord_member)
                                                            (m_name discord_member) EXTC
                                                            (extc_xanax price_info))
                                                         \<lparr>display_name :=
                                                            Some (m_display_name discord_member),
                                                          timestamp := Some log_time,
                                                          xanax_payment := Some amount,
                                                          payment_received_at := Some log_time,
                                                          auto_detected := True,
                                                          torn_sender_name := Some sender_name,
                                                          jumps := Some jump_count,
                                                          edvds_reward :=
                                                            Some (extc_edvds price_info),
                                                          ecstasy_reward :=
                                                            Some (extc_ecstasy price_info)\<rparr>
                                                   in Inr (st\<lparr>pending_order :=
                                                                AList.update order_id order_data
                                                                  (pending_order st),
                                                              processed_events :=
                                                                insert event_id
                                                                  (processed_events st)\<rparr>,
                                                           1)))))))))"

text \<open>
  The loop over the feed inside the \<^verbatim>\<open>try\<close> block: an exception ends it, and what the
  earlier entries stored stays. The third component records the exception caught by
  \<^verbatim>\<open>except Exception\<close>.
\<close>

fun detect_events :: "int \<Rightarrow> member list \<Rightarrow> (string \<times> log_entry) list \<Rightarrow> state \<Rightarrow> nat \<Rightarrow>
    state \<times> nat \<times> py_error option" where
  "detect_events now members [] st new_orders_count = (st, new_orders_count, None)"
| "detect_events now members (item # rest) st new_orders_count =
     (case detect_event now members st item of
        Inl e \<Rightarrow> (st, new_orders_count, Some e)
      | Inr (st', k) \<Rightarrow> detect_events now members rest st' (new_orders_count + k))"

definition detect_new_orders_from_torn ::
    "int \<Rightarrow> member list \<Rightarrow> feed \<Rightarrow> state \<Rightarrow> state \<times> nat" where
  "detect_new_orders_from_torn now members events st =
     (if \<not> feed_truthy events then (st, 0)
      else (case detect_events now members (log_items events) st 0 of
              (st', new_orders_count, caught) \<Rightarrow> (st', new_orders_count)))"

section \<open>Commands on the Order Store\<close>

datatype response =
    NotAdministrator
  | NoPricingConfigured
  | OrderAlreadyExists
  | InsuranceAlreadyActive
  | InvalidCoverage
  | InvalidValues
  | NoPendingOrders
  | MultipleOrders
  | OrdersListed
  | InvalidOrderNumber
  | InvalidApiKey
  | Raised py_error
  | Done

text \<open>
  \<^verbatim>\<open>/xan\<close> and \<^verbatim>\<open>/extc\<close>. The argument \<open>coverage\<close> is the text the member sent, as
  \<^verbatim>\<open>int(coverage)\<close> reads it: \<open>None\<close> when the text is no integer and
  \<^verbatim>\<open>int\<close> raises \<^verbatim>\<open>ValueError\<close>.
\<close>

definition xan_insurance :: "int \<Rightarrow> member \<Rightarrow> int option \<Rightarrow> state \<Rightarrow> state \<times> response" where
  "xan_insurance now user coverage st =
     (if pricing_xan st = [] then (st, NoPricingConfigured)
      else if has_order (m_id user) (pending_order st) then (st, OrderAlreadyExists)
      else if has_order (m_id user) (active_orders st) then (st, InsuranceAlreadyActive)
      else (case coverage of
              None \<Rightarrow> (st, Raised ValueError)
            | Some hrs \<Rightarrow>
                (case map_of (pricing_xan st) hrs of
                   None \<Rightarrow> (st, InvalidCoverage)
                 | Some price_config \<Rightarrow>
                     (let order_id = OrderId (m_id user) now False;
                          order_data =
                            (order_dict (m_id user) (m_name user) XAN (xan_reward price_config))
                            \<lparr>display_name := Some (m_display_name user),
                             hours := Some hrs,
                             xanax_payment := Some (xan_cost price_config),
                             timestamp := Some now,
                             status := Some StatusPending\<rparr>
                      in (st\<lparr>pending_order :=
                               AList.update order_id order_data (pending_order st)\<rparr>, Done)))))"

definition extc_insurance :: "int \<Rightarrow> member \<Rightarrow> int option \<Rightarrow> state \<Rightarrow> state \<times> response" where
  "extc_insurance now user coverage st =
     (if pricing_extc st = [] then (st, NoPricingConfigured)
      else if has_order (m_id user) (pending_order st) then (st, OrderAlreadyExists)
      else if has_order (m_id user) (active_orders st) then (st, InsuranceAlreadyActive)
      else (case coverage of
              None \<Rightarrow> (st, Raised ValueError)
            | Some jmps \<Rightarrow>
                (case map_of (pricing_extc st) jmps of
                   None \<Rightarrow> (st, InvalidCoverage)
                 | Some price_config \<Rightarrow>
                     (let order_id = OrderId (m_id user) now False;
                          order_data =
                            (order_dict (m_id user) (m_name user) EXTC (extc_xanax price_config))
                            \<lparr>display_name := Some (m_display_name user),
                             jumps := Some jmps,
                             xanax_payment := Some (extc_cost price_config),
                             edvds_reward := Some (extc_edvds price_config),
                             ecstasy_reward := Some (extc_ecstasy price_config),
                             timestamp := Some now,
                             status := Some StatusPending\<rparr>
                      in (st\<lparr>pending_order :=
                               AList.update order_id order_data (pending_order st)\<rparr>, Done)))))"

text \<open>\<^verbatim>\<open>/setxanprice\<close> and \<^verbatim>\<open>/setextcprice\<close>; \<open>admin\<close> is the permission check of the caller.\<close>

definition set_xan_price :: "bool \<Rightarrow> int \<Rightarrow> int \<Rightarrow> int \<Rightarrow> state \<Rightarrow> state \<times> response" where
  "set_xan_price admin hrs cost reward st =
     (if \<not> admin then (st, NotAdministrator)
      else if hrs < 1 \<or> cost < 1 \<or> reward < 1 then (st, InvalidValues)
      else (st\<lparr>pricing_xan :=
                 AList.update hrs \<lparr>xan_cost = cost, xan_reward = reward\<rparr> (pricing_xan st)\<rparr>,
            Done))"

definition set_extc_price ::
    "bool \<Rightarrow> int \<Rightarrow> int \<Rightarrow> int \<Rightarrow> int \<Rightarrow> int \<Rightarrow> state \<Rightarrow> state \<times> response" where
  "set_extc_price admin jmps cost edvds xanax ecstasy st =
     (if \<not> admin then (st, NotAdministrator)
      else if jmps < 1 \<or> cost < 1 \<or> edvds < 1 \<or> xanax < 1 \<or> ecstasy < 1
      then (st, InvalidValues)
      else (st\<lparr>pricing_extc :=
                 AList.update jmps
                   \<lparr>extc_cost = cost, extc_edvds = edvds, extc_xanax = xanax,
                    extc_ecstasy = ecstasy\<rparr> (pricing_extc st)\<rparr>,
            Done))"






section \<open>Scheduler\<close>

text \<open>
  \<^verbatim>\<open>/apikeyadd\<close>; \<open>valid\<close> is the answer of the remote service to the test call.
\<close>

definition add_api_key :: "bool \<Rightarrow> string \<Rightarrow> bool \<Rightarrow> state \<Rightarrow> state \<times> response" where
  "add_api_key admin api_key valid st =
     (if \<not> admin then (st, NotAdministrator)
      else if length api_key < 10 then (st, InvalidApiKey)
      else if \<not> valid then (st, InvalidApiKey)
      else (st\<lparr>stored_api_key := Some api_key\<rparr>, Done))"

definition get_api_key :: "state \<Rightarrow> string option" where
  "get_api_key st = stored_api_key st"

datatype action = Start | Stop | Status

definition auto_check_command ::
    "bool \<Rightarrow> int \<Rightarrow> action \<Rightarrow> int \<Rightarrow> state \<Rightarrow> state \<times> response" where
  "auto_check_command admin now act interval st =
     (if \<not> admin then (st, NotAdministrator)
      else (case act of
              Start \<Rightarrow>
                (case get_api_key st of
                   None \<Rightarrow> (st, InvalidApiKey)
                 | Some k \<Rightarrow>
                     if k = [] then (st, InvalidApiKey)
                     else if interval < 1 \<or> interval > 60 then (st, InvalidValues)
                     else (st\<lparr>auto_check_enabled := True, auto_check_interval := interval,
                              last_check_time := now\<rparr>, Done))
            | Stop \<Rightarrow> (st\<lparr>auto_check_enabled := False\<rparr>, Done)
            | Status \<Rightarrow> (st, Done)))"

text \<open>
  One tick of \<^verbatim>\<open>auto_check_orders\<close>. \<open>guild\<close> is the member list of the first guild of
  the bot (\<open>None\<close> when it is in no guild); each pass fetches the feed itself, so the tick
  takes the reply to either fetch. The outcome tells what the tick did.
\<close>

datatype tick_outcome =
    Disabled
  | TooEarly
  | NoGuild
  | MissingApiKey
  | Checked nat "py_error + nat \<times> nat"

definition auto_check_orders ::
    "int \<Rightarrow> member list option \<Rightarrow> feed \<Rightarrow> feed \<Rightarrow> state \<Rightarrow> state \<times> tick_outcome" where
  "auto_check_orders now guild events1 events2 st =
     (if \<not> auto_check_enabled st then (st, Disabled)
      else if now - last_check_time st < auto_check_interval st * 60 then (st, TooEarly)
      else
        (let st0 = st\<lparr>last_check_time := now\<rparr> in
         case guild of
           None \<Rightarrow> (st0, NoGuild)
         | Some members \<Rightarrow>
             (case get_api_key st0 of
                None \<Rightarrow> (st0, MissingApiKey)
              | Some k \<Rightarrow>
                  if k = [] then (st0, MissingApiKey)
                  else
                    (case detect_new_orders_from_torn now members events1 st0 of
                       (st1, new_orders_count) \<Rightarrow>
                         (case perform_order_check now events2 st1 of
                            (st2, checked) \<Rightarrow> (st2, Checked new_orders_count checked))))))"

text \<open>The store when the process starts.\<close>

definition initial_state :: "int \<Rightarrow> state" where
  "initial_state now =
     \<lparr>pending_order = [], active_orders = [], pricing_xan = [], pricing_extc = [],
      processed_events = {}, stored_api_key = None, auto_check_enabled = False,
      auto_check_interval = 5, last_check_time = now\<rparr>"


section \<open>Reachable stores and the at-most-one property\<close>









section \<open>Auxiliary notions for the proofs\<close>

text \<open>
  What a completed scan of the feed means for one entry of the pending dictionary:
  whether a payment was found for it, and the entry as the scan leaves it.
\<close>

definition is_paid :: "int \<Rightarrow> (string \<times> log_entry) list \<Rightarrow> order_id \<times> order \<Rightarrow> bool" where
  "is_paid lookback_limit items =
     (\<lambda>(oid, order_data).
        case find_payment lookback_limit order_data items of
          Inr (Some log_time) \<Rightarrow> True
        | _ \<Rightarrow> False)"

definition settle ::
    "int \<Rightarrow> (string \<times> log_entry) list \<Rightarrow> order_id \<times> order \<Rightarrow> order_id \<times> order" where
  "settle lookback_limit items =
     (\<lambda>(oid, order_data).
        case find_payment lookback_limit order_data items of
          Inr (Some log_time) \<Rightarrow> (oid, confirm_payment order_data log_time)
        | _ \<Rightarrow> (oid, order_data))"

section \<open>Scenarios\<close>

text \<open>Concrete members, feed entries and stores, built with the commands themselves.\<close>

definition t0 :: int where
  "t0 = 1700000000"

definition bob :: member where
  "bob = \<lparr>m_id = 7, m_name = ''bob_t'', m_display_name = ''Bob''\<rparr>"

definition carol :: member where
  "carol = \<lparr>m_id = 8, m_name = ''carol_t'', m_display_name = ''Carol''\<rparr>"

definition xan_text :: string where
  "xan_text = ''You were sent 1x Xanax from Bob with the message: HJSx''"

definition xan_text2 :: string where
  "xan_text2 = ''You were sent 2x Xanax from Bob with the message: HJSx''"

definition extc_text :: string where
  "extc_text = ''You were sent 3x Xanax from Bob with the message: HJSe''"


definition event :: "string \<Rightarrow> int \<Rightarrow> log_entry" where
  "event text t = Dict (PStr []) (PStr text) (TsNum t) []"

text \<open>The pricing table of the scenario: 12 hours of XAN for 1, with reward 4.\<close>

definition st_xan_priced :: state where
  "st_xan_priced = fst (set_xan_price True 12 1 4 (initial_state t0))"

definition st_extc_priced :: state where
  "st_extc_priced = fst (set_extc_price True 1 3 3 4 1 (initial_state t0))"

text \<open>Bob has ordered 12 hours of XAN at \<open>t0\<close>; then Carol too.\<close>

definition st_bob_pending :: state where
  "st_bob_pending = fst (xan_insurance t0 bob (Some 12) st_xan_priced)"

definition st_two_pending :: state where
  "st_two_pending = fst (xan_insurance t0 carol (Some 12) st_bob_pending)"



text \<open>A feed whose third entry has a \<^verbatim>\<open>timestamp\<close> that is no number.\<close>

definition feed_bad_ts :: feed where
  "feed_bad_ts =
     FeedDict [(''101'', event xan_text (t0 - 7000)), (''102'', event xan_text (t0 - 3500)),
               (''103'', Dict (PStr []) (PStr xan_text) TsOther [])]"

text \<open>The scheduler is started on a store with EXTC pricing and a credential.\<close>

definition st_scheduled :: state where
  "st_scheduled =
     fst (auto_check_command True t0 Start 5
            (fst (add_api_key True ''0123456789abcdef'' True st_extc_priced)))"




text \<open>Feeds of the scenarios.\<close>

definition feed_xan_payment :: feed where
  "feed_xan_payment = FeedDict [(''9001'', event xan_text t0)]"

definition feed_xan_payment2 :: feed where
  "feed_xan_payment2 = FeedDict [(''9001'', event xan_text2 t0)]"

definition feed_extc_payment :: feed where
  "feed_extc_payment = FeedDict [(''9002'', event extc_text (t0 + 290))]"



definition feed_30min :: feed where
  "feed_30min = FeedDict [(''302'', event xan_text (t0 + 1800))]"


definition feed_extc_only :: feed where
  "feed_extc_only = FeedList [event extc_text t0]"





section \<open>Facts about the text primitives\<close>








section \<open>Amount extraction: the examples and the three tiers\<close>




lemma amount_found_examples:
  "payment_amount_found 4 ''4x Xanax''"
  "\<not> payment_amount_found 5 ''4x Xanax''"
  "payment_amount_found 1 ''some Xanax''"
  "payment_amount_found 7 ''sent 7 Xanax to you''"
  "payment_amount_found 9 ''paid 12 then 9''"
  by code_simp+



section \<open>New-Order Discovery on a XAN payment\<close>

text \<open>
  Claim C1 (the code departs from it). The pricing table holds 12 hours of XAN for the
  cost 1. The event pays 1 with the XAN tag and transfer phrasing, its sender resolves to
  the member Bob, who has no order, and the amount matches the tier: every predicate of
  New-Order Discovery passes. Yet the pass returns the store as it was, with no pending
  order, the event not marked as processed and the count 0.
\<close>

theorem xan_discovery_stores_nothing:
  "has_payment_text XAN (py_lower xan_text)
   \<and> extract_sender_name xan_text = Inr (Some ''Bob'')
   \<and> find_member [bob] ''Bob'' = Some bob
   \<and> \<not> has_order (m_id bob) (pending_order st_xan_priced)
   \<and> \<not> has_order (m_id bob) (active_orders st_xan_priced)
   \<and> payment_amount xan_text = 1
   \<and> map_of (pricing_xan st_xan_priced) 12 = Some \<lparr>xan_cost = 1, xan_reward = 4\<rparr>
   \<and> detect_new_orders_from_torn t0 [bob] feed_xan_payment st_xan_priced = (st_xan_priced, 0)"
  by code_simp

text \<open>The sibling path: the same payment with the EXTC tag and an EXTC tier is stored.\<close>

lemma extc_discovery_stores_order:
  "map fst (pending_order (fst (detect_new_orders_from_torn t0 [bob] feed_extc_only st_extc_priced)))
     = [OrderId 7 t0 True]
   \<and> processed_events (fst (detect_new_orders_from_torn t0 [bob] feed_extc_only st_extc_priced))
     = {''0''}
   \<and> snd (detect_new_orders_from_torn t0 [bob] feed_extc_only st_extc_priced) = 1"
  by code_simp

text \<open>A payment that matches no tier produces nothing.\<close>

lemma xan_discovery_no_tier:
  "payment_amount xan_text2 = 2
   \<and> detect_new_orders_from_torn t0 [bob] feed_xan_payment2 st_xan_priced = (st_xan_priced, 0)"
  by code_simp

section \<open>The purchase commands\<close>

text \<open>
  Claim C9. A purchase attempt (\<^verbatim>\<open>/xan\<close> or \<^verbatim>\<open>/extc\<close>) by a member who already holds a
  pending order or an active order, of whatever kind, is refused, and the whole store
  (pending orders, active orders, pricing table) stays as it was.
\<close>

theorem purchase_refused_when_order_exists:
  assumes "has_order (m_id user) (pending_order st) \<or> has_order (m_id user) (active_orders st)"
  shows "fst (xan_insurance now user coverage st) = st
         \<and> snd (xan_insurance now user coverage st)
             \<in> {NoPricingConfigured, OrderAlreadyExists, InsuranceAlreadyActive}
         \<and> fst (extc_insurance now user coverage st) = st
         \<and> snd (extc_insurance now user coverage st)
             \<in> {NoPricingConfigured, OrderAlreadyExists, InsuranceAlreadyActive}"
  using assms by (auto simp: xan_insurance_def extc_insurance_def)

theorem purchase_refused_when_order_exists_witness:
  "has_order (m_id bob) (pending_order st_bob_pending)
   \<and> xan_insurance (t0 + 10) bob (Some 12) st_bob_pending = (st_bob_pending, OrderAlreadyExists)
   \<and> extc_insurance (t0 + 10) bob (Some 1) st_bob_pending = (st_bob_pending, NoPricingConfigured)"
proof -
  have h: "has_order (m_id bob) (pending_order st_bob_pending)" by code_simp
  have a: "snd (xan_insurance (t0 + 10) bob (Some 12) st_bob_pending) = OrderAlreadyExists"
    by code_simp
  have b: "snd (extc_insurance (t0 + 10) bob (Some 1) st_bob_pending) = NoPricingConfigured"
    by code_simp
  show ?thesis
    using purchase_refused_when_order_exists [of bob st_bob_pending "t0 + 10" "Some 12"]
      purchase_refused_when_order_exists [of bob st_bob_pending "t0 + 10" "Some 1"] h a b
    by (metis prod.collapse)
qed

section \<open>Manual activation\<close>



section \<open>The Scheduler tick\<close>

text \<open>
  Claim C8, as amended. On every effective tick (the scheduler is enabled, the interval
  has elapsed, the bot is in a guild and a credential is stored) the Scheduler runs
  New-Order Discovery first and the Matching Engine second, on the store that discovery
  left; the tick reports the counts of both.
\<close>

theorem tick_runs_discovery_then_matching:
  assumes "auto_check_enabled st"
    and "now - last_check_time st \<ge> auto_check_interval st * 60"
    and "stored_api_key st = Some k" and "k \<noteq> []"
    and "detect_new_orders_from_torn now members events1 (st\<lparr>last_check_time := now\<rparr>) = (st1, n)"
    and "perform_order_check now events2 st1 = (st2, c)"
  shows "auto_check_orders now (Some members) events1 events2 st = (st2, Checked n c)"
  using assms by (simp add: auto_check_orders_def get_api_key_def Let_def)

theorem tick_runs_discovery_then_matching_witness:
  "auto_check_enabled st_scheduled
   \<and> (t0 + 300) - last_check_time st_scheduled \<ge> auto_check_interval st_scheduled * 60
   \<and> stored_api_key st_scheduled = Some ''0123456789abcdef''
   \<and> snd (auto_check_orders (t0 + 300) (Some [bob]) feed_extc_payment feed_extc_payment st_scheduled)
       = Checked 1 (Inr (0, 1))"
proof -
  have h: "auto_check_enabled st_scheduled"
    "(t0 + 300) - last_check_time st_scheduled \<ge> auto_check_interval st_scheduled * 60"
    "stored_api_key st_scheduled = Some ''0123456789abcdef''"
    "''0123456789abcdef'' \<noteq> []"
    by code_simp+
  have d: "snd (detect_new_orders_from_torn (t0 + 300) [bob] feed_extc_payment
             (st_scheduled\<lparr>last_check_time := t0 + 300\<rparr>)) = 1"
    by code_simp
  have m: "snd (perform_order_check (t0 + 300) feed_extc_payment
             (fst (detect_new_orders_from_torn (t0 + 300) [bob] feed_extc_payment
                (st_scheduled\<lparr>last_check_time := t0 + 300\<rparr>)))) = Inr (0, 1)"
    by code_simp
  show ?thesis
    using tick_runs_discovery_then_matching
        [OF h(1) h(2) h(3) h(4) prod.collapse [symmetric] prod.collapse [symmetric],
         of "[bob]" feed_extc_payment feed_extc_payment] h d m
    by simp
qed

text \<open>
  The claim as stated (Matching Engine first, New-Order Discovery second) fails: an EXTC
  payment that discovery turns into a pending order is confirmed by the Matching Engine
  in the same tick, so the tick ends with the order active and nothing pending; with the
  Matching Engine first the order would still be pending after the tick.
\<close>

theorem tick_matching_first_counterexample:
  "pending_order (fst (auto_check_orders (t0 + 300) (Some [bob]) feed_extc_payment
                         feed_extc_payment st_scheduled)) = []
   \<and> map fst (active_orders (fst (auto_check_orders (t0 + 300) (Some [bob]) feed_extc_payment
                         feed_extc_payment st_scheduled))) = [OrderId 7 (t0 + 300) True]
   \<and> map fst (pending_order (fst (detect_new_orders_from_torn (t0 + 300) [bob] feed_extc_payment
        (fst (perform_order_check (t0 + 300) feed_extc_payment
                (st_scheduled\<lparr>last_check_time := t0 + 300\<rparr>))))))
       = [OrderId 7 (t0 + 300) True]
   \<and> active_orders (fst (detect_new_orders_from_torn (t0 + 300) [bob] feed_extc_payment
        (fst (perform_order_check (t0 + 300) feed_extc_payment
                (st_scheduled\<lparr>last_check_time := t0 + 300\<rparr>))))) = []"
  by code_simp

section \<open>The scan of the feed for one order\<close>






lemma check_orders_normal:
  "check_orders lb items p = (p', Inr (v, n)) \<Longrightarrow>
     p' = map (settle lb items) p
     \<and> v = map (settle lb items) (filter (is_paid lb items) p)
     \<and> n = length (filter (\<lambda>x. \<not> is_paid lb items x) p)"
proof (induction p arbitrary: p' v n)
  case Nil
  then show ?case by simp
next
  case (Cons a p)
  obtain oid od where a: "a = (oid, od)" by (cases a)
  show ?case
  proof (cases "find_payment lb od items")
    case (Inl err)
    then show ?thesis using Cons.prems a by simp
  next
    case (Inr r)
    obtain q res where rec: "check_orders lb items p = (q, res)" by (cases "check_orders lb items p")
    show ?thesis
    proof (cases res)
      case (Inl err)
      then show ?thesis using Cons.prems a Inr rec by (cases r) (auto simp: Let_def)
    next
      case (Inr vn)
      obtain v0 n0 where vn: "vn = (v0, n0)" by (cases vn)
      have ih: "q = map (settle lb items) p
         \<and> v0 = map (settle lb items) (filter (is_paid lb items) p)
         \<and> n0 = length (filter (\<lambda>x. \<not> is_paid lb items x) p)"
        using Cons.IH rec Inr vn by simp
      show ?thesis
      proof (cases r)
        case None
        then show ?thesis
          using Cons.prems a \<open>find_payment lb od items = Inr r\<close> rec Inr vn ih
          by (auto simp: settle_def is_paid_def)
      next
        case (Some t)
        then show ?thesis
          using Cons.prems a \<open>find_payment lb od items = Inr r\<close> rec Inr vn ih
          by (auto simp: settle_def is_paid_def Let_def)
      qed
    qed
  qed
qed

section \<open>The pass of the Matching Engine\<close>

lemma check_orders_no_raise:
  "check_orders lb items p = (p', Inr vn) \<Longrightarrow> (oid, od) \<in> set p \<Longrightarrow>
     \<exists>r. find_payment lb od items = Inr r"
proof (induction p arbitrary: p' vn)
  case Nil
  then show ?case by simp
next
  case (Cons a p)
  obtain k o' where a: "a = (k, o')" by (cases a)
  obtain q res where rec: "check_orders lb items p = (q, res)" by (cases "check_orders lb items p")
  show ?case
  proof (cases "find_payment lb o' items")
    case (Inl err)
    then show ?thesis using Cons.prems a by simp
  next
    case (Inr r)
    have "\<exists>vn'. res = Inr vn'"
      using Cons.prems(1) a Inr rec by (cases r; cases res) (auto simp: Let_def)
    then obtain vn' where "res = Inr vn'" by blast
    then have "(oid, od) \<in> set p \<Longrightarrow> \<exists>r. find_payment lb od items = Inr r"
      using Cons.IH rec by blast
    then show ?thesis using Cons.prems(2) a Inr by auto
  qed
qed

lemma check_orders_all_unpaid:
  "\<forall>(oid, od) \<in> set p. find_payment lb od items = Inr None \<Longrightarrow>
     check_orders lb items p = (p, Inr ([], length p))"
  by (induction p) auto

lemma activate_verified_eq:
  "activate_verified now v st =
     st\<lparr>active_orders :=
          foldl (\<lambda>d (oid, od). AList.update oid (activate now od) d) (active_orders st) v,
        pending_order := filter (\<lambda>x. fst x \<notin> fst ` set v) (pending_order st)\<rparr>"
proof (induction v arbitrary: st)
  case Nil
  then show ?case by simp
next
  case (Cons a v)
  obtain oid od where a: "a = (oid, od)" by (cases a)
  have "filter (\<lambda>x. fst x \<notin> fst ` set v) (AList.delete oid (pending_order st))
      = filter (\<lambda>x. fst x \<notin> fst ` set (a # v)) (pending_order st)"
    using a by (auto simp: AList.delete_eq intro: filter_cong)
  then show ?case using Cons.IH a by simp
qed

lemma perform_order_check_normal:
  assumes "perform_order_check now events st = (st1, Inr c)"
    and "pending_order st \<noteq> []" and "events \<noteq> FeedNone"
  shows "\<exists>v. v = map (settle (now - 24 * 3600) (log_items events))
                  (filter (is_paid (now - 24 * 3600) (log_items events)) (pending_order st))
           \<and> st1 = activate_verified now v
                     (st\<lparr>pending_order :=
                          map (settle (now - 24 * 3600) (log_items events)) (pending_order st)\<rparr>)
           \<and> c = (length (filter (\<lambda>x. \<not> is_paid (now - 24 * 3600) (log_items events) x)
                             (pending_order st)), length v)"
proof -
  let ?lb = "now - 24 * 3600"
  obtain p' res where co: "check_orders ?lb (log_items events) (pending_order st) = (p', res)"
    by (cases "check_orders ?lb (log_items events) (pending_order st)")
  show ?thesis
  proof (cases res)
    case (Inl e)
    then show ?thesis using assms co by (simp add: perform_order_check_def)
  next
    case (Inr vn)
    obtain v n where vn: "vn = (v, n)" by (cases vn)
    have ch: "p' = map (settle ?lb (log_items events)) (pending_order st)
       \<and> v = map (settle ?lb (log_items events))
                (filter (is_paid ?lb (log_items events)) (pending_order st))
       \<and> n = length (filter (\<lambda>x. \<not> is_paid ?lb (log_items events) x) (pending_order st))"
      using check_orders_normal co Inr vn by blast
    have "st1 = activate_verified now v (st\<lparr>pending_order := p'\<rparr>)" "c = (n, length v)"
      using assms co Inr vn by (auto simp: perform_order_check_def)
    then show ?thesis using ch by simp
  qed
qed


lemma settle_unpaid: "\<not> is_paid lb items x \<Longrightarrow> settle lb items x = x"
  by (cases x) (auto simp: settle_def is_paid_def split: sum.splits option.splits)








section \<open>What a match records\<close>




section \<open>The time window of a match\<close>





section \<open>Running the Matching Engine twice\<close>

text \<open>
  Claim C5, as amended. When a run of the Matching Engine completes (it returns its
  counts), a second run against the same feed at the same reference time returns the
  store of the first run unchanged and activates nothing.
\<close>

theorem matching_idempotent_when_completed:
  assumes "perform_order_check now events st = (st1, Inr c)"
  shows "\<exists>n. perform_order_check now events st1 = (st1, Inr (n, 0))"
proof (cases "pending_order st = [] \<or> events = FeedNone")
  case True
  then have "st1 = st" using assms by (auto simp: perform_order_check_def split: if_splits)
  then show ?thesis using True by (auto simp: perform_order_check_def)
next
  case False
  let ?lb = "now - 24 * 3600"
  let ?items = "log_items events"
  define v where "v = map (settle ?lb ?items) (filter (is_paid ?lb ?items) (pending_order st))"
  have st1: "st1 = activate_verified now v
                     (st\<lparr>pending_order := map (settle ?lb ?items) (pending_order st)\<rparr>)"
    using perform_order_check_normal [OF assms] False v_def by auto
  have pend1: "pending_order st1 =
      filter (\<lambda>x. fst x \<notin> fst ` set v) (map (settle ?lb ?items) (pending_order st))"
    unfolding st1 by (subst activate_verified_eq) simp
  obtain p' vn where co: "check_orders ?lb ?items (pending_order st) = (p', Inr vn)"
    using assms False
    by (cases "check_orders ?lb ?items (pending_order st)")
       (auto simp: perform_order_check_def split: sum.splits)
  have unpaid: "\<forall>(oid, od) \<in> set (pending_order st1). find_payment ?lb od ?items = Inr None"
  proof (clarify)
    fix oid od
    assume "(oid, od) \<in> set (pending_order st1)"
    then obtain x where x: "x \<in> set (pending_order st)" "settle ?lb ?items x = (oid, od)"
      "oid \<notin> fst ` set v"
      using pend1 by auto
    have np: "\<not> is_paid ?lb ?items x"
    proof
      assume "is_paid ?lb ?items x"
      then have "settle ?lb ?items x \<in> set v" using x(1) v_def by auto
      then show False using x(2,3) by force
    qed
    then have eq: "x = (oid, od)" using x(2) settle_unpaid by metis
    obtain r where "find_payment ?lb od ?items = Inr r"
      using check_orders_no_raise [OF co] x(1) eq by blast
    then show "find_payment ?lb od ?items = Inr None"
      using np eq by (cases r) (auto simp: is_paid_def)
  qed
  have co1: "check_orders ?lb ?items (pending_order st1)
      = (pending_order st1, Inr ([], length (pending_order st1)))"
    using unpaid by (rule check_orders_all_unpaid)
  show ?thesis
    using co1 False by (auto simp: perform_order_check_def)
qed

theorem matching_idempotent_when_completed_witness:
  "snd (perform_order_check (t0 + 1860) feed_30min st_two_pending) = Inr (1, 1)
   \<and> perform_order_check (t0 + 1860) feed_30min
        (fst (perform_order_check (t0 + 1860) feed_30min st_two_pending))
       = (fst (perform_order_check (t0 + 1860) feed_30min st_two_pending), Inr (1, 0))"
proof -
  have a: "snd (perform_order_check (t0 + 1860) feed_30min st_two_pending) = Inr (1, 1)"
    by code_simp
  then have r: "perform_order_check (t0 + 1860) feed_30min st_two_pending
      = (fst (perform_order_check (t0 + 1860) feed_30min st_two_pending), Inr (1, 1))"
    by (metis prod.collapse)
  have b: "snd (perform_order_check (t0 + 1860) feed_30min
        (fst (perform_order_check (t0 + 1860) feed_30min st_two_pending))) = Inr (1, 0)"
    by code_simp
  show ?thesis
    using matching_idempotent_when_completed [OF r] a b by auto
qed

text \<open>
  The claim as stated fails when the first run is ended by an exception: the orders
  matched before it are updated in place but not activated. Here the feed has a third
  entry whose timestamp is no number. The first run moves the creation time of the
  first order to the payment 3500 seconds earlier and then fails on the second order;
  the second run now accepts the older payment and moves the creation time again.
\<close>

theorem matching_idempotent_counterexample:
  "snd (perform_order_check (t0 + 60) feed_bad_ts st_two_pending) = Inl TypeError
   \<and> map (timestamp \<circ> snd)
        (pending_order (fst (perform_order_check (t0 + 60) feed_bad_ts st_two_pending)))
       = [Some (t0 - 3500), Some t0]
   \<and> map (timestamp \<circ> snd)
        (pending_order (fst (perform_order_check (t0 + 60) feed_bad_ts
                               (fst (perform_order_check (t0 + 60) feed_bad_ts st_two_pending)))))
       = [Some (t0 - 7000), Some t0]
   \<and> fst (perform_order_check (t0 + 60) feed_bad_ts
             (fst (perform_order_check (t0 + 60) feed_bad_ts st_two_pending)))
       \<noteq> fst (perform_order_check (t0 + 60) feed_bad_ts st_two_pending)"
  by code_simp

section \<open>Exceptions during a pass\<close>




lemma st_extc_priced_pending: "pending_order st_extc_priced = []"
  by code_simp



section \<open>The invariant of the store\<close>




lemma set_update_subset: "set (AList.update k v xs) \<subseteq> insert (k, v) (set xs)"
  by (induction xs) auto








lemma detect_event_cases:
  assumes "detect_event now ms st item = Inr (st', k)"
  shows "(st' = st \<and> k = 0)
     \<or> (\<exists>oid od ev. \<not> has_order (user_id od) (pending_order st)
            \<and> \<not> has_order (user_id od) (active_orders st)
            \<and> coverage_type od = EXTC
            \<and> st' = st\<lparr>pending_order := AList.update oid od (pending_order st),
                       processed_events := insert ev (processed_events st)\<rparr>
            \<and> k = 1)"
proof (cases item)
  case (Pair event_id entry)
  show ?thesis
  proof (cases entry)
    case NonDict
    then show ?thesis using assms Pair by (simp add: detect_event_def)
  next
    case (Dict lg ev ts others)
    show ?thesis
      using assms unfolding Pair Dict detect_event_def Let_def order_dict_def
      apply (simp split: if_splits sum.splits option.splits prod.splits)
      apply (elim conjE)
      apply (intro exI conjI)
          prefer 4
          apply (erule sym)
         apply simp_all
      done
  qed
qed






section \<open>The passes and the commands keep the invariant\<close>




















section \<open>At most one order per member and kind\<close>







section \<open>What discovery can store\<close>

text \<open>Whatever the feed entry, an order that New-Order Discovery adds is an EXTC order.\<close>

lemma discovery_stores_extc_only:
  assumes "detect_event now ms st item = Inr (st', k)" and "x \<in> set (pending_order st')"
  shows "x \<in> set (pending_order st) \<or> coverage_type (snd x) = EXTC"
proof -
  consider "st' = st"
    | oid od ev where "coverage_type od = EXTC"
        "st' = st\<lparr>pending_order := AList.update oid od (pending_order st),
                   processed_events := insert ev (processed_events st)\<rparr>"
    using detect_event_cases [OF assms(1)] by blast
  then show ?thesis
  proof cases
    case 1
    then show ?thesis using assms(2) by simp
  next
    case 2
    have "x = (oid, od) \<or> x \<in> set (pending_order st)"
      using assms(2) 2(2) set_update_subset [of oid od "pending_order st"] by auto
    then show ?thesis using 2(1) by auto
  qed
qed

end
